theory Spec2Isabelle
  imports Complex_Main
begin

section \<open>Data model\<close>

text \<open>
  The embedding covers \<^verbatim>\<open>routers/generate_data.py\<close> (the endpoint
  \<^verbatim>\<open>generate_mock_data\<close>), the schemas of \<^verbatim>\<open>schemas.py\<close> it validates with
  and the tables of \<^verbatim>\<open>models.py\<close> it writes.

  A \<^verbatim>\<open>date\<close> is its proleptic ordinal (a day number), so that
  \<^verbatim>\<open>d + timedelta(days=n)\<close> is \<open>d + n\<close>. A Python \<^verbatim>\<open>float\<close> is idealised as an
  exact rational: the comparisons of the validators and the shape of the formulas are those
  of the source, the binary rounding of each operation is not modelled.
\<close>

type_synonym date = int

type_synonym money = rat

text \<open>The string enums of \<^verbatim>\<open>schemas.py\<close>, as the lists of their values in declaration order.\<close>

definition DepartmentName :: "string list" where
  "DepartmentName = [''HR'', ''Engineering'', ''Marketing'', ''Finance'', ''Sales'']"

definition ProjectStatus :: "string list" where
  "ProjectStatus = [''Planning'', ''Active'', ''Completed'', ''On Hold'']"

definition PaymentMethod :: "string list" where
  "PaymentMethod = [''Bank Transfer'', ''Check'', ''Direct Deposit'']"

definition JOB_TITLES :: "string list" where
  "JOB_TITLES = [''Software Engineer'', ''HR Manager'', ''Marketing Specialist'',
     ''Financial Analyst'', ''Sales Executive'', ''Product Manager'']"

text \<open>The validated schema objects (\<^verbatim>\<open>DepartmentCreate\<close>, ...): the fields of the base schema.\<close>

record DepartmentCreate =
  dc_name :: string
  dc_location :: string
  dc_budget :: money
  dc_head_of_department :: string
  dc_established_date :: date
  dc_employee_count :: int

record EmployeeCreate =
  ec_first_name :: string
  ec_last_name :: string
  ec_email :: string
  ec_phone :: string
  ec_hire_date :: date
  ec_job_title :: string
  ec_department_id :: "int option"

record ProjectCreate =
  pc_name :: string
  pc_description :: "string option"
  pc_start_date :: date
  pc_end_date :: "date option"
  pc_budget :: money
  pc_status :: string
  pc_department_id :: int

record SalaryCreate =
  sc_employee_id :: int
  sc_amount :: money
  sc_payment_date :: date
  sc_tax_deduction :: money
  sc_bonus :: money
  sc_payment_method :: string

text \<open>The rows of \<^verbatim>\<open>models.py\<close>: the schema's fields and the primary key.\<close>

record Department =
  d_id :: int
  d_name :: string
  d_location :: string
  d_budget :: money
  d_head_of_department :: string
  d_established_date :: date
  d_employee_count :: int

record Employee =
  e_id :: int
  e_first_name :: string
  e_last_name :: string
  e_email :: string
  e_phone :: string
  e_hire_date :: date
  e_job_title :: string
  e_department_id :: "int option"

record Project =
  p_id :: int
  p_name :: string
  p_description :: "string option"
  p_start_date :: date
  p_end_date :: "date option"
  p_budget :: money
  p_status :: string
  p_department_id :: int

record Salary =
  s_id :: int
  s_employee_id :: int
  s_amount :: money
  s_payment_date :: date
  s_tax_deduction :: money
  s_bonus :: money
  s_payment_method :: string

record ProjectEmployee =
  pe_employee_id :: int
  pe_project_id :: int
  pe_role :: string
  pe_join_date :: date

section \<open>The store and the session\<close>

text \<open>
  A \<open>store\<close> is the content of the five tables, each in insertion order, with the next
  primary key of each table that has one. The engine that allocates the keys is configured in
  \<^verbatim>\<open>database.py\<close>, which is not part of the sources: the model uses one counter per
  table, and no statement below depends on more than the keys of one table being distinct.
\<close>

record store =
  t_departments :: "Department list"
  t_employees :: "Employee list"
  t_projects :: "Project list"
  t_salaries :: "Salary list"
  t_project_employees :: "ProjectEmployee list"
  next_department_id :: int
  next_employee_id :: int
  next_project_id :: int
  next_salary_id :: int

text \<open>
  The state a request runs in: what the database holds (\<open>committed\<close>), what the
  request's SQLAlchemy session sees (\<open>session\<close>: the committed rows and the writes not yet
  committed), the values \<^verbatim>\<open>fake.unique.email()\<close> has returned so far in this process
  (\<^verbatim>\<open>fake\<close> is a module global) and how many raw draws the random generators have
  consumed.
\<close>

record world =
  committed :: store
  session :: store
  seen_emails :: "string list"
  rnd_pos :: nat

text \<open>
  What the request cannot control: the current day, the raw draws of the random generators
  (the \<open>k\<close>-th draw is \<open>raw k\<close>, an integer the generators reduce to the range they need), the word lists of Faker (each provider maps a raw draw
  to its text), the lengths in days that Faker gives the relative dates
  \<^verbatim>\<open>"-5y"\<close>, \<^verbatim>\<open>"-1y"\<close> and \<^verbatim>\<open>"+6m"\<close>, and pydantic's \<^verbatim>\<open>EmailStr\<close> check.
\<close>

record env =
  today :: date
  raw :: "nat \<Rightarrow> int"
  fake_city :: "int \<Rightarrow> string"
  fake_state_abbr :: "int \<Rightarrow> string"
  fake_name :: "int \<Rightarrow> string"
  fake_first_name :: "int \<Rightarrow> string"
  fake_last_name :: "int \<Rightarrow> string"
  fake_email :: "int \<Rightarrow> string"
  fake_color_name :: "int \<Rightarrow> string"
  fake_sentence :: "int \<Rightarrow> string"
  days_5y :: int
  days_1y :: int
  days_6m :: int
  EmailStr :: "string \<Rightarrow> bool"

section \<open>Exceptions and the state-and-exception monad\<close>

datatype error =
  ValidationError
  | ValueError
  | IndexError
  | UniquenessException
  | IntegrityError

text \<open>
  A computation returns its value or the exception it raised, and in both cases the state it
  left: the handler of \<^verbatim>\<open>generate_mock_data\<close> runs in the state the exception left.
\<close>

type_synonym 'a run = "world \<Rightarrow> (error + 'a) \<times> world"

definition return :: "'a \<Rightarrow> 'a run" where
  "return x w = (Inr x, w)"

definition raise :: "error \<Rightarrow> 'a run" where
  "raise e w = (Inl e, w)"

definition bind :: "'a run \<Rightarrow> ('a \<Rightarrow> 'b run) \<Rightarrow> 'b run" where
  "bind m f w = (case m w of (Inl e, w') \<Rightarrow> (Inl e, w') | (Inr x, w') \<Rightarrow> f x w')"

text \<open>A \<^verbatim>\<open>for\<close> loop whose body appends one object per iteration to a list.\<close>

fun for_each :: "'a list \<Rightarrow> ('a \<Rightarrow> 'b run) \<Rightarrow> 'b list run" where
  "for_each [] f w = (Inr [], w)"
| "for_each (x # xs) f w =
     (case f x w of
        (Inl e, w') \<Rightarrow> (Inl e, w')
      | (Inr y, w') \<Rightarrow>
          (case for_each xs f w' of
             (Inl e, w'') \<Rightarrow> (Inl e, w'')
           | (Inr ys, w'') \<Rightarrow> (Inr (y # ys), w'')))"

text \<open>\<^verbatim>\<open>range(a, b)\<close>; \<^verbatim>\<open>range(n)\<close> is \<open>py_range 0 n\<close>.\<close>

definition py_range :: "int \<Rightarrow> int \<Rightarrow> int list" where
  "py_range a b = [a..b - 1]"

section \<open>The random generators\<close>

text \<open>
  Python's \<^verbatim>\<open>random\<close> and Faker are libraries outside the repository; they are modelled
  by their documented behaviour over the raw draws of the environment, one raw draw per call.
\<close>

definition draw :: "env \<Rightarrow> int run" where
  "draw env w = (Inr (raw env (rnd_pos w)), w\<lparr>rnd_pos := Suc (rnd_pos w)\<rparr>)"

text \<open>\<^verbatim>\<open>random.random()\<close>: a multiple of \<open>2\<^sup>-\<^sup>5\<^sup>3\<close> in \<open>[0, 1)\<close>; \<open>9007199254740992\<close> is \<open>2\<^sup>5\<^sup>3\<close>.\<close>

definition random_random :: "env \<Rightarrow> rat run" where
  "random_random env = bind (draw env) (\<lambda>r. return (of_int (r mod 9007199254740992) / 9007199254740992))"

text \<open>\<^verbatim>\<open>random.uniform(a, b)\<close> is \<^verbatim>\<open>a + (b - a) * random()\<close>.\<close>

definition random_uniform :: "env \<Rightarrow> rat \<Rightarrow> rat \<Rightarrow> rat run" where
  "random_uniform env a b = bind (random_random env) (\<lambda>u. return (a + (b - a) * u))"

text \<open>\<^verbatim>\<open>random.randint(a, b)\<close>: an integer of \<open>[a, b]\<close>; ValueError on an empty range.\<close>

definition random_randint :: "env \<Rightarrow> int \<Rightarrow> int \<Rightarrow> int run" where
  "random_randint env a b =
     (if b < a then raise ValueError
      else bind (draw env) (\<lambda>r. return (a + r mod (b - a + 1))))"

text \<open>\<^verbatim>\<open>random.choice(seq)\<close>: IndexError on an empty sequence.\<close>

definition random_choice :: "env \<Rightarrow> 'a list \<Rightarrow> 'a run" where
  "random_choice env xs =
     (if xs = [] then raise IndexError
      else bind (draw env) (\<lambda>r. return (xs ! nat (r mod int (length xs)))))"

text \<open>
  \<^verbatim>\<open>random.shuffle(x)\<close>: for \<open>i\<close> from \<open>len(x) - 1\<close> down to \<open>1\<close>, exchange \<open>x[i]\<close> with
  \<open>x[j]\<close> for a random \<open>j \<le> i\<close>. \<open>shuffle_from env i xs\<close> runs the iterations \<open>i, ..., 1\<close>.
\<close>

fun shuffle_from :: "env \<Rightarrow> nat \<Rightarrow> 'a list \<Rightarrow> 'a list run" where
  "shuffle_from env 0 xs = return xs"
| "shuffle_from env (Suc i) xs =
     bind (draw env) (\<lambda>r.
       let j = nat (r mod (int (Suc i) + 1)) in
       shuffle_from env i (xs[Suc i := xs ! j, j := xs ! Suc i]))"

definition random_shuffle :: "env \<Rightarrow> 'a list \<Rightarrow> 'a list run" where
  "random_shuffle env xs = shuffle_from env (length xs - 1) xs"

text \<open>
  \<^verbatim>\<open>random.sample(population, k)\<close>: ValueError unless \<open>0 \<le> k \<le> len(population)\<close>; otherwise
  \<open>k\<close> elements at pairwise different positions, each chosen among the positions not yet taken.
\<close>

fun sample_from :: "env \<Rightarrow> nat \<Rightarrow> 'a list \<Rightarrow> 'a list run" where
  "sample_from env 0 pool = return []"
| "sample_from env (Suc k) pool =
     bind (draw env) (\<lambda>r.
       let j = nat (r mod int (length pool)) in
       bind (sample_from env k (take j pool @ drop (Suc j) pool)) (\<lambda>rest.
       return (pool ! j # rest)))"

definition random_sample :: "env \<Rightarrow> 'a list \<Rightarrow> int \<Rightarrow> 'a list run" where
  "random_sample env population k =
     (if k < 0 \<or> int (length population) < k then raise ValueError
      else sample_from env (nat k) population)"

text \<open>A Faker provider that returns text: one raw draw, mapped by the provider's word list.\<close>

definition fake_text :: "env \<Rightarrow> (int \<Rightarrow> string) \<Rightarrow> string run" where
  "fake_text env provider = bind (draw env) (\<lambda>r. return (provider r))"

text \<open>
  \<^verbatim>\<open>fake.date_between(start_date, end_date)\<close>: a day of \<open>[start, end]\<close>. For
  \<open>end < start\<close> the model raises, as the \<^verbatim>\<open>randint\<close> underneath does; the endpoint
  makes no such call when the relative dates lie on the side of today their names say.
\<close>

definition fake_date_between :: "env \<Rightarrow> date \<Rightarrow> date \<Rightarrow> date run" where
  "fake_date_between env start_date end_date =
     (if end_date < start_date then raise ValueError
      else bind (draw env) (\<lambda>r.
        return (start_date + r mod (end_date - start_date + 1))))"

text \<open>
  \<^verbatim>\<open>fake.unique.email()\<close>: draws until the value is one it has not returned before in
  this process, remembers it, and gives up with UniquenessException after \<open>attempts\<close> draws.
\<close>

fun fake_unique_email :: "env \<Rightarrow> nat \<Rightarrow> string run" where
  "fake_unique_email env 0 w = (Inl UniquenessException, w)"
| "fake_unique_email env (Suc attempts) w =
     (let v = fake_email env (raw env (rnd_pos w));
          w1 = w\<lparr>rnd_pos := Suc (rnd_pos w)\<rparr>
      in if v \<in> set (seen_emails w) then fake_unique_email env attempts w1
         else (Inr v, w1\<lparr>seen_emails := v # seen_emails w\<rparr>))"

definition UNIQUE_ATTEMPTS :: nat where
  "UNIQUE_ATTEMPTS = 1000"

section \<open>Formatting and rounding\<close>

definition digit_char :: "int \<Rightarrow> char" where
  "digit_char n = char_of (48 + n)"

text \<open>The decimal digits of a non-negative integer, and \<^verbatim>\<open>str(i)\<close> as an f-string formats it.\<close>

function str_digits :: "int \<Rightarrow> string" where
  "str_digits n =
     (if n < 10 then [digit_char n] else str_digits (n div 10) @ [digit_char (n mod 10)])"
  by pat_completeness auto
termination
  by (relation "measure nat") auto

declare str_digits.simps [simp del]

definition str_int :: "int \<Rightarrow> string" where
  "str_int i = (if i < 0 then CHR ''-'' # str_digits (- i) else str_digits i)"

text \<open>\<^verbatim>\<open>round(x, 2)\<close>: to the nearest hundredth, a tie to the even one.\<close>

definition round2 :: "rat \<Rightarrow> rat" where
  "round2 x =
     (let y = x * 100; f = \<lfloor>y\<rfloor>; d = y - of_int f
      in of_int (if d < 1 / 2 then f else if 1 / 2 < d then f + 1
                 else if even f then f else f + 1) / 100)"

text \<open>\<^verbatim>\<open>str.title()\<close> on ASCII text: a letter after a non-letter in upper case, the others in lower case.\<close>

definition is_lower :: "char \<Rightarrow> bool" where
  "is_lower c = (97 \<le> (of_char c :: int) \<and> (of_char c :: int) \<le> 122)"

definition is_upper :: "char \<Rightarrow> bool" where
  "is_upper c = (65 \<le> (of_char c :: int) \<and> (of_char c :: int) \<le> 90)"

fun title_from :: "bool \<Rightarrow> string \<Rightarrow> string" where
  "title_from inside [] = []"
| "title_from inside (c # cs) =
     (if is_lower c then (if inside then c else char_of (of_char c - (32 :: int))) # title_from True cs
      else if is_upper c then (if inside then char_of (of_char c + (32 :: int)) else c) # title_from True cs
      else c # title_from False cs)"

definition title :: "string \<Rightarrow> string" where
  "title s = title_from False s"

text \<open>\<^verbatim>\<open>generate_phone\<close>.\<close>

definition generate_phone :: "env \<Rightarrow> string run" where
  "generate_phone env =
     bind (random_randint env 200 999) (\<lambda>a.
     bind (random_randint env 200 999) (\<lambda>b.
     bind (random_randint env 1000 9999) (\<lambda>c.
     return (''+1-'' @ str_int a @ ''-'' @ str_int b @ ''-'' @ str_int c))))"

section \<open>Schema validation\<close>

text \<open>
  Constructing a pydantic schema validates its fields and raises ValidationError when one
  fails. The checks are those \<^verbatim>\<open>schemas.py\<close> declares: enum membership, \<^verbatim>\<open>gt\<close>,
  \<^verbatim>\<open>ge\<close>, \<^verbatim>\<open>min_length\<close>, \<^verbatim>\<open>max_length\<close>, \<^verbatim>\<open>pattern\<close> and the two
  \<^verbatim>\<open>@validator\<close> methods.
\<close>

definition new_DepartmentCreate ::
  "string \<Rightarrow> string \<Rightarrow> money \<Rightarrow> string \<Rightarrow> date \<Rightarrow> int \<Rightarrow> DepartmentCreate run" where
  "new_DepartmentCreate name location budget head_of_department established_date employee_count =
     (if name \<in> set DepartmentName \<and> 0 < budget \<and> 0 \<le> employee_count
      then return \<lparr>dc_name = name, dc_location = location, dc_budget = budget,
                   dc_head_of_department = head_of_department,
                   dc_established_date = established_date,
                   dc_employee_count = employee_count\<rparr>
      else raise ValidationError)"

definition is_digit :: "char \<Rightarrow> bool" where
  "is_digit c = (48 \<le> (of_char c :: int) \<and> (of_char c :: int) \<le> 57)"

definition is_space :: "char \<Rightarrow> bool" where
  "is_space c = ((of_char c :: int) = 32 \<or> (9 \<le> (of_char c :: int) \<and> (of_char c :: int) \<le> 13))"

text \<open>The pattern \<^verbatim>\<open>^\+?[\d\s-]{10,15}$\<close> of \<^verbatim>\<open>EmployeeBase.phone\<close>.\<close>

definition phone_pattern :: "string \<Rightarrow> bool" where
  "phone_pattern s =
     (let body = (case s of [] \<Rightarrow> [] | c # cs \<Rightarrow> if c = CHR ''+'' then cs else s)
      in 10 \<le> length body \<and> length body \<le> 15 \<and>
         list_all (\<lambda>c. is_digit c \<or> is_space c \<or> c = CHR ''-'') body)"

definition new_EmployeeCreate ::
  "env \<Rightarrow> string \<Rightarrow> string \<Rightarrow> string \<Rightarrow> string \<Rightarrow> date \<Rightarrow> string \<Rightarrow> int option \<Rightarrow>
   EmployeeCreate run" where
  "new_EmployeeCreate env first_name last_name email phone hire_date job_title department_id =
     (if 2 \<le> length first_name \<and> length first_name \<le> 50 \<and>
         2 \<le> length last_name \<and> length last_name \<le> 50 \<and>
         EmailStr env email \<and> phone_pattern phone \<and>
         \<not> today env < hire_date
      then return \<lparr>ec_first_name = first_name, ec_last_name = last_name, ec_email = email,
                   ec_phone = phone, ec_hire_date = hire_date, ec_job_title = job_title,
                   ec_department_id = department_id\<rparr>
      else raise ValidationError)"

definition new_ProjectCreate ::
  "string \<Rightarrow> string option \<Rightarrow> date \<Rightarrow> date option \<Rightarrow> money \<Rightarrow> string \<Rightarrow> int \<Rightarrow>
   ProjectCreate run" where
  "new_ProjectCreate name description start_date end_date budget status department_id =
     (if length name \<le> 100 \<and>
         (case description of None \<Rightarrow> True | Some t \<Rightarrow> length t \<le> 500) \<and>
         (case end_date of None \<Rightarrow> True | Some v \<Rightarrow> \<not> v < start_date) \<and>
         0 < budget \<and> status \<in> set ProjectStatus
      then return \<lparr>pc_name = name, pc_description = description, pc_start_date = start_date,
                   pc_end_date = end_date, pc_budget = budget, pc_status = status,
                   pc_department_id = department_id\<rparr>
      else raise ValidationError)"

definition new_SalaryCreate ::
  "int \<Rightarrow> money \<Rightarrow> date \<Rightarrow> money \<Rightarrow> money \<Rightarrow> string \<Rightarrow> SalaryCreate run" where
  "new_SalaryCreate employee_id amount payment_date tax_deduction bonus payment_method =
     (if 0 < amount \<and> 0 \<le> tax_deduction \<and> 0 \<le> bonus \<and> payment_method \<in> set PaymentMethod
      then return \<lparr>sc_employee_id = employee_id, sc_amount = amount,
                   sc_payment_date = payment_date, sc_tax_deduction = tax_deduction,
                   sc_bonus = bonus, sc_payment_method = payment_method\<rparr>
      else raise ValidationError)"

section \<open>The session\<close>

text \<open>
  \<^verbatim>\<open>db.query(T).delete()\<close> empties table \<open>T\<close> in the session's transaction.
\<close>

definition update_session :: "(store \<Rightarrow> store) \<Rightarrow> unit run" where
  "update_session f w = (Inr (), w\<lparr>session := f (session w)\<rparr>)"

definition delete_ProjectEmployee :: "unit run" where
  "delete_ProjectEmployee = update_session (\<lambda>s. s\<lparr>t_project_employees := []\<rparr>)"

definition delete_Salary :: "unit run" where
  "delete_Salary = update_session (\<lambda>s. s\<lparr>t_salaries := []\<rparr>)"

definition delete_Project :: "unit run" where
  "delete_Project = update_session (\<lambda>s. s\<lparr>t_projects := []\<rparr>)"

definition delete_Employee :: "unit run" where
  "delete_Employee = update_session (\<lambda>s. s\<lparr>t_employees := []\<rparr>)"

definition delete_Department :: "unit run" where
  "delete_Department = update_session (\<lambda>s. s\<lparr>t_departments := []\<rparr>)"

text \<open>
  \<^verbatim>\<open>obj = T(**data.model_dump()); db.add(obj)\<close>: the row is pending in the session and
  gets the table's next key. (SQLAlchemy assigns the key when the commit flushes; the
  pending rows of one table are flushed in the order they were added, and the endpoint reads
  no key before the commit, so the key is the same.)
\<close>

definition add_Department :: "DepartmentCreate \<Rightarrow> Department run" where
  "add_Department data w =
     (let s = session w;
          dept = \<lparr>d_id = next_department_id s, d_name = dc_name data,
                  d_location = dc_location data, d_budget = dc_budget data,
                  d_head_of_department = dc_head_of_department data,
                  d_established_date = dc_established_date data,
                  d_employee_count = dc_employee_count data\<rparr>
      in (Inr dept, w\<lparr>session := s\<lparr>t_departments := t_departments s @ [dept],
                                   next_department_id := next_department_id s + 1\<rparr>\<rparr>))"

definition add_Employee :: "EmployeeCreate \<Rightarrow> Employee run" where
  "add_Employee data w =
     (let s = session w;
          employee = \<lparr>e_id = next_employee_id s, e_first_name = ec_first_name data,
                      e_last_name = ec_last_name data, e_email = ec_email data,
                      e_phone = ec_phone data, e_hire_date = ec_hire_date data,
                      e_job_title = ec_job_title data,
                      e_department_id = ec_department_id data\<rparr>
      in (Inr employee, w\<lparr>session := s\<lparr>t_employees := t_employees s @ [employee],
                                       next_employee_id := next_employee_id s + 1\<rparr>\<rparr>))"

definition add_Project :: "ProjectCreate \<Rightarrow> Project run" where
  "add_Project data w =
     (let s = session w;
          project = \<lparr>p_id = next_project_id s, p_name = pc_name data,
                     p_description = pc_description data, p_start_date = pc_start_date data,
                     p_end_date = pc_end_date data, p_budget = pc_budget data,
                     p_status = pc_status data, p_department_id = pc_department_id data\<rparr>
      in (Inr project, w\<lparr>session := s\<lparr>t_projects := t_projects s @ [project],
                                      next_project_id := next_project_id s + 1\<rparr>\<rparr>))"

definition add_Salary :: "SalaryCreate \<Rightarrow> Salary run" where
  "add_Salary data w =
     (let s = session w;
          salary = \<lparr>s_id = next_salary_id s, s_employee_id = sc_employee_id data,
                    s_amount = sc_amount data, s_payment_date = sc_payment_date data,
                    s_tax_deduction = sc_tax_deduction data, s_bonus = sc_bonus data,
                    s_payment_method = sc_payment_method data\<rparr>
      in (Inr salary, w\<lparr>session := s\<lparr>t_salaries := t_salaries s @ [salary],
                                     next_salary_id := next_salary_id s + 1\<rparr>\<rparr>))"

definition add_ProjectEmployee :: "ProjectEmployee \<Rightarrow> ProjectEmployee run" where
  "add_ProjectEmployee assignment w =
     (let s = session w
      in (Inr assignment, w\<lparr>session := s\<lparr>t_project_employees := t_project_employees s @ [assignment]\<rparr>\<rparr>))"

text \<open>
  The constraints of \<^verbatim>\<open>models.py\<close> that a flush checks: \<^verbatim>\<open>unique=True\<close> on
  \<^verbatim>\<open>Department.name\<close> and \<^verbatim>\<open>Employee.email\<close>, and the composite primary key of
  \<^verbatim>\<open>project_employees\<close>.
\<close>

definition constraints_hold :: "store \<Rightarrow> bool" where
  "constraints_hold s =
     (distinct (map d_name (t_departments s)) \<and>
      distinct (map e_email (t_employees s)) \<and>
      distinct (map (\<lambda>a. (pe_employee_id a, pe_project_id a)) (t_project_employees s)))"

text \<open>\<^verbatim>\<open>db.commit()\<close>: IntegrityError when a constraint fails, otherwise the session's writes are the database's.\<close>

definition db_commit :: "unit run" where
  "db_commit w =
     (if constraints_hold (session w) then (Inr (), w\<lparr>committed := session w\<rparr>)
      else (Inl IntegrityError, w))"

text \<open>\<^verbatim>\<open>db.rollback()\<close>: the writes not committed are dropped.\<close>

definition db_rollback :: "world \<Rightarrow> world" where
  "db_rollback w = w\<lparr>session := committed w\<rparr>"

section \<open>The endpoint \<^verbatim>\<open>generate_mock_data\<close>\<close>

text \<open>Lines 43 to 48: the five deletes, children before parents, and their commit.\<close>

definition clear_existing_data :: "unit run" where
  "clear_existing_data =
     bind delete_ProjectEmployee (\<lambda>_.
     bind delete_Salary (\<lambda>_.
     bind delete_Project (\<lambda>_.
     bind delete_Employee (\<lambda>_.
     bind delete_Department (\<lambda>_.
     db_commit)))))"

text \<open>
  The body both department loops share (lines 60 to 70 and 77 to 87): the schema is built
  from the name and fresh random fields, validated, and the row is added.
\<close>

definition create_department :: "env \<Rightarrow> string \<Rightarrow> int \<Rightarrow> Department run" where
  "create_department env dept_name employees_per_dept =
     bind (fake_text env (fake_city env)) (\<lambda>city.
     bind (fake_text env (fake_state_abbr env)) (\<lambda>state_abbr.
     bind (random_uniform env 100000 500000) (\<lambda>u.
     bind (fake_text env (fake_name env)) (\<lambda>head.
     bind (fake_date_between env (today env - days_5y env) (today env)) (\<lambda>established.
     bind (new_DepartmentCreate dept_name (city @ '', '' @ state_abbr) (round2 u) head
             established employees_per_dept) (\<lambda>dept_data.
     add_Department dept_data))))))"

text \<open>
  Lines 50 to 89. The first loop takes the shuffled enum values in order; the second, for
  each department beyond the enum's length, formats a re-drawn value and a number of
  \<open>1..100\<close> into a new name (the f-string is modelled as formatting the member's value).
  The set \<^verbatim>\<open>used_dept_names\<close> is written and never read.
\<close>

definition generate_departments :: "env \<Rightarrow> int \<Rightarrow> int \<Rightarrow> Department list run" where
  "generate_departments env departments employees_per_dept =
     bind (random_shuffle env DepartmentName) (\<lambda>all_dept_names.
     bind (for_each (py_range 0 (min departments (int (length all_dept_names)))) (\<lambda>i.
             create_department env (all_dept_names ! nat i) employees_per_dept)) (\<lambda>first.
     bind (for_each (py_range (int (length all_dept_names)) departments) (\<lambda>i.
             bind (random_choice env all_dept_names) (\<lambda>base_name.
             bind (random_randint env 1 100) (\<lambda>n.
             create_department env (base_name @ '' '' @ str_int n) employees_per_dept)))) (\<lambda>extra.
     bind db_commit (\<lambda>_.
     return (first @ extra)))))"

text \<open>Lines 97 to 111: one employee of a department.\<close>

definition create_employee :: "env \<Rightarrow> Department \<Rightarrow> Employee run" where
  "create_employee env dept =
     bind (fake_text env (fake_first_name env)) (\<lambda>first_name.
     bind (fake_text env (fake_last_name env)) (\<lambda>last_name.
     bind (fake_unique_email env UNIQUE_ATTEMPTS) (\<lambda>email.
     bind (generate_phone env) (\<lambda>phone.
     bind (fake_date_between env (d_established_date dept) (today env)) (\<lambda>hire_date.
     bind (random_choice env JOB_TITLES) (\<lambda>job_title.
     bind (new_EmployeeCreate env first_name last_name email phone hire_date job_title
             (Some (d_id dept))) (\<lambda>emp_data.
     add_Employee emp_data)))))))"

text \<open>Lines 93 to 112.\<close>

definition generate_employees :: "env \<Rightarrow> Department list \<Rightarrow> int \<Rightarrow> Employee list run" where
  "generate_employees env dept_objects employees_per_dept =
     bind (for_each dept_objects (\<lambda>dept.
             for_each (py_range 0 employees_per_dept) (\<lambda>_. create_employee env dept))) (\<lambda>groups.
     bind db_commit (\<lambda>_.
     return (concat groups)))"

text \<open>Lines 118 to 133: one project of a department.\<close>

definition create_project :: "env \<Rightarrow> Department \<Rightarrow> Project run" where
  "create_project env dept =
     bind (fake_date_between env (today env - days_1y env)
             (today env + days_6m env)) (\<lambda>start_date.
     bind (fake_text env (fake_color_name env)) (\<lambda>color.
     bind (fake_text env (fake_sentence env)) (\<lambda>description.
     bind (fake_date_between env (start_date + 30) (start_date + 180)) (\<lambda>end_date.
     bind (random_uniform env 20000 150000) (\<lambda>u.
     bind (random_choice env ProjectStatus) (\<lambda>status.
     bind (new_ProjectCreate (''Project '' @ title color) (Some description) start_date
             (Some end_date) (round2 u) status (d_id dept)) (\<lambda>project_data.
     add_Project project_data)))))))"

text \<open>Lines 114 to 134.\<close>

definition generate_projects :: "env \<Rightarrow> Department list \<Rightarrow> int \<Rightarrow> Project list run" where
  "generate_projects env dept_objects projects_per_dept =
     bind (for_each dept_objects (\<lambda>dept.
             for_each (py_range 0 projects_per_dept) (\<lambda>_. create_project env dept))) (\<lambda>groups.
     bind db_commit (\<lambda>_.
     return (concat groups)))"

text \<open>
  Lines 139 to 153: the assignments of one project. Python evaluates the population, then
  \<open>k\<close>, then the sample.
\<close>

definition assign_project :: "env \<Rightarrow> Employee list \<Rightarrow> int \<Rightarrow> Project \<Rightarrow> ProjectEmployee list run" where
  "assign_project env employee_objects employees_per_dept project =
     bind (random_randint env 2 (min 5 employees_per_dept)) (\<lambda>k.
     bind (random_sample env
             (filter (\<lambda>e. e_department_id e = Some (p_department_id project)) employee_objects)
             k) (\<lambda>assignees.
     for_each assignees (\<lambda>emp.
       bind (random_choice env [''Lead'', ''Member'', ''Contributor'']) (\<lambda>role.
       bind (fake_date_between env (p_start_date project) (p_start_date project + 30)) (\<lambda>join_date.
       add_ProjectEmployee \<lparr>pe_employee_id = e_id emp, pe_project_id = p_id project,
                            pe_role = role, pe_join_date = join_date\<rparr>)))))"

text \<open>Lines 136 to 154.\<close>

definition generate_assignments ::
  "env \<Rightarrow> Employee list \<Rightarrow> Project list \<Rightarrow> int \<Rightarrow> ProjectEmployee list run" where
  "generate_assignments env employee_objects project_objects employees_per_dept =
     bind (for_each project_objects
             (assign_project env employee_objects employees_per_dept)) (\<lambda>groups.
     bind db_commit (\<lambda>_.
     return (concat groups)))"

text \<open>Lines 160 to 170: one salary row of an employee, from the employee's base salary.\<close>

definition create_salary :: "env \<Rightarrow> Employee \<Rightarrow> rat \<Rightarrow> Salary run" where
  "create_salary env emp base_salary =
     bind (random_uniform env (9 / 10) (11 / 10)) (\<lambda>u1.
     bind (fake_date_between env (e_hire_date emp) (today env)) (\<lambda>payment_date.
     bind (random_uniform env (8 / 10) (12 / 10)) (\<lambda>u2.
     bind (random_random env) (\<lambda>u3.
     bind (random_choice env PaymentMethod) (\<lambda>payment_method.
     bind (new_SalaryCreate (e_id emp) (round2 (base_salary * u1)) payment_date
             (round2 (base_salary * (2 / 10) * u2)) (round2 (base_salary * (1 / 10) * u3))
             payment_method) (\<lambda>salary_data.
     add_Salary salary_data))))))"

text \<open>Lines 158 to 170: the salaries of one employee; the base salary is drawn before the loop.\<close>

definition employee_salaries :: "env \<Rightarrow> int \<Rightarrow> Employee \<Rightarrow> Salary list run" where
  "employee_salaries env salaries_per_employee emp =
     bind (random_uniform env 45000 120000) (\<lambda>base_salary.
     for_each (py_range 0 salaries_per_employee) (\<lambda>_. create_salary env emp base_salary))"

text \<open>Lines 156 to 171.\<close>

definition generate_salaries :: "env \<Rightarrow> Employee list \<Rightarrow> int \<Rightarrow> Salary list run" where
  "generate_salaries env employee_objects salaries_per_employee =
     bind (for_each employee_objects (employee_salaries env salaries_per_employee)) (\<lambda>groups.
     bind db_commit (\<lambda>_.
     return (concat groups)))"

text \<open>The success payload of lines 173 to 181.\<close>

record stats =
  st_departments :: int
  st_employees :: int
  st_projects :: int
  st_salaries :: int

record response =
  message :: string
  stats :: stats

text \<open>The body of the \<^verbatim>\<open>try\<close> block, lines 42 to 181.\<close>

definition generate_body :: "env \<Rightarrow> int \<Rightarrow> int \<Rightarrow> int \<Rightarrow> int \<Rightarrow> response run" where
  "generate_body env departments employees_per_dept projects_per_dept salaries_per_employee =
     bind clear_existing_data (\<lambda>_.
     bind (generate_departments env departments employees_per_dept) (\<lambda>dept_objects.
     bind (generate_employees env dept_objects employees_per_dept) (\<lambda>employee_objects.
     bind (generate_projects env dept_objects projects_per_dept) (\<lambda>project_objects.
     bind (generate_assignments env employee_objects project_objects employees_per_dept) (\<lambda>_.
     bind (generate_salaries env employee_objects salaries_per_employee) (\<lambda>_.
     return \<lparr>message = ''Mock data generated successfully'',
             stats = \<lparr>st_departments = int (length dept_objects),
                      st_employees = int (length employee_objects),
                      st_projects = int (length project_objects),
                      st_salaries = int (length employee_objects) * salaries_per_employee\<rparr>\<rparr>))))))"

text \<open>
  What the caller receives when the handler of line 183 runs: the status code and the
  exception the detail message is formatted from.
\<close>

datatype http_error = HTTPException int error

text \<open>
  \<^verbatim>\<open>generate_mock_data\<close>: the body, and on any exception \<^verbatim>\<open>db.rollback()\<close> and
  \<^verbatim>\<open>HTTPException(status_code=500, ...)\<close>.
\<close>

definition generate_mock_data ::
  "env \<Rightarrow> int \<Rightarrow> int \<Rightarrow> int \<Rightarrow> int \<Rightarrow> world \<Rightarrow> (http_error + response) \<times> world" where
  "generate_mock_data env departments employees_per_dept projects_per_dept salaries_per_employee w =
     (case generate_body env departments employees_per_dept projects_per_dept
             salaries_per_employee w of
        (Inr result, w') \<Rightarrow> (Inr result, w')
      | (Inl e, w') \<Rightarrow> (Inl (HTTPException 500 e), db_rollback w'))"

section \<open>Auxiliary notions for the statements\<close>

text \<open>A store with its five tables emptied; the key counters stay.\<close>

definition purged :: "store \<Rightarrow> store" where
  "purged s = s\<lparr>t_project_employees := [], t_salaries := [], t_projects := [],
                t_employees := [], t_departments := []\<rparr>"

(*DEFS-END*)
section \<open>The monad and the session\<close>

lemma bind_Inr: "m w = (Inr x, w') \<Longrightarrow> bind m f w = f x w'"
  by (simp add: bind_def)

lemma bind_Inl: "m w = (Inl e, w') \<Longrightarrow> bind m f w = (Inl e, w')"
  by (simp add: bind_def)

lemma constraints_hold_purged: "constraints_hold (purged s)"
  by (simp add: constraints_hold_def purged_def)

lemma clear_existing_data_eq:
  "clear_existing_data w =
     (Inr (), w\<lparr>session := purged (session w), committed := purged (session w)\<rparr>)"
proof -
  have "constraints_hold (purged (session w))"
    by (rule constraints_hold_purged)
  then show ?thesis
    by (simp add: clear_existing_data_def bind_def delete_ProjectEmployee_def delete_Salary_def
        delete_Project_def delete_Employee_def delete_Department_def update_session_def
        db_commit_def purged_def)
qed

lemma shuffle_from_result:
  "\<exists>ys. shuffle_from env n xs w = (Inr ys, w\<lparr>rnd_pos := rnd_pos w + n\<rparr>) \<and>
        length ys = length xs \<and>
        (n < length xs \<longrightarrow> set ys = set xs \<and> (distinct xs \<longrightarrow> distinct ys))"
proof (induction n arbitrary: xs w)
  case 0
  show ?case by (simp add: return_def)
next
  case (Suc i)
  define j where "j = nat (raw env (rnd_pos w) mod (int (Suc i) + 1))"
  define xs' where "xs' = xs[Suc i := xs ! j, j := xs ! Suc i]"
  define w1 where "w1 = w\<lparr>rnd_pos := Suc (rnd_pos w)\<rparr>"
  have step: "shuffle_from env (Suc i) xs w = shuffle_from env i xs' w1"
    by (simp add: bind_def draw_def Let_def j_def xs'_def w1_def)
  have jle: "j \<le> Suc i"
  proof -
    have "raw env (rnd_pos w) mod (int (Suc i) + 1) < int (Suc i) + 1"
      by (rule pos_mod_bound) simp
    then show ?thesis unfolding j_def by linarith
  qed
  from Suc.IH [of xs' w1] obtain ys where
    ys: "shuffle_from env i xs' w1 = (Inr ys, w1\<lparr>rnd_pos := rnd_pos w1 + i\<rparr>)"
      "length ys = length xs'"
      "i < length xs' \<longrightarrow> set ys = set xs' \<and> (distinct xs' \<longrightarrow> distinct ys)"
    by blast
  have len: "length xs' = length xs" by (simp add: xs'_def)
  have w: "w1\<lparr>rnd_pos := rnd_pos w1 + i\<rparr> = w\<lparr>rnd_pos := rnd_pos w + Suc i\<rparr>"
    by (simp add: w1_def)
  have sw: "Suc i < length xs \<Longrightarrow> set xs' = set xs \<and> distinct xs' = distinct xs"
    using jle unfolding xs'_def by (simp add: set_swap distinct_swap)
  show ?case
    unfolding step using ys len w sw by auto
qed

lemma py_range_empty: "b \<le> a \<Longrightarrow> py_range a b = []"
  by (simp add: py_range_def)


lemma db_commit_ok:
  "constraints_hold (session w) \<Longrightarrow> db_commit w = (Inr (), w\<lparr>committed := session w\<rparr>)"
  by (simp add: db_commit_def)

lemma generate_departments_none:
  assumes "departments \<le> 0" and "constraints_hold (session w)"
  shows "generate_departments env departments employees_per_dept w =
           (Inr [], w\<lparr>rnd_pos := rnd_pos w + 4, committed := session w\<rparr>)"
proof -
  obtain ys where ys:
    "shuffle_from env 4 DepartmentName w = (Inr ys, w\<lparr>rnd_pos := rnd_pos w + 4\<rparr>)"
    "length ys = length DepartmentName"
    using shuffle_from_result [of env 4 DepartmentName w] by blast
  have len: "length DepartmentName = 5" by (simp add: DepartmentName_def)
  have sh: "random_shuffle env DepartmentName w = (Inr ys, w\<lparr>rnd_pos := rnd_pos w + 4\<rparr>)"
    using ys(1) by (simp add: random_shuffle_def len)
  have r1: "py_range 0 (min departments (int (length ys))) = []"
    using assms(1) by (simp add: py_range_empty)
  have r2: "py_range (int (length ys)) departments = []"
    using assms(1) ys(2) len by (simp add: py_range_empty)
  show ?thesis
    unfolding generate_departments_def
    by (simp add: bind_def sh r1 r2 return_def db_commit_ok assms(2))
qed

lemma generate_employees_none:
  assumes "constraints_hold (session w)"
  shows "generate_employees env [] employees_per_dept w = (Inr [], w\<lparr>committed := session w\<rparr>)"
  unfolding generate_employees_def by (simp add: bind_def return_def db_commit_ok assms)

lemma generate_projects_none:
  assumes "constraints_hold (session w)"
  shows "generate_projects env [] projects_per_dept w = (Inr [], w\<lparr>committed := session w\<rparr>)"
  unfolding generate_projects_def by (simp add: bind_def return_def db_commit_ok assms)

lemma generate_assignments_none:
  assumes "constraints_hold (session w)"
  shows "generate_assignments env emps [] employees_per_dept w =
           (Inr [], w\<lparr>committed := session w\<rparr>)"
  unfolding generate_assignments_def by (simp add: bind_def return_def db_commit_ok assms)

lemma generate_salaries_none:
  assumes "constraints_hold (session w)"
  shows "generate_salaries env [] salaries_per_employee w = (Inr [], w\<lparr>committed := session w\<rparr>)"
  unfolding generate_salaries_def by (simp add: bind_def return_def db_commit_ok assms)

lemma generate_body_no_departments:
  assumes "departments \<le> 0"
  shows "generate_body env departments employees_per_dept projects_per_dept salaries_per_employee w =
           (Inr \<lparr>message = ''Mock data generated successfully'',
                  stats = \<lparr>st_departments = 0, st_employees = 0, st_projects = 0,
                           st_salaries = 0\<rparr>\<rparr>,
            w\<lparr>session := purged (session w), committed := purged (session w),
              rnd_pos := rnd_pos w + 4\<rparr>)"
  unfolding generate_body_def
  by (simp add: bind_def clear_existing_data_eq generate_departments_none [OF assms]
      generate_employees_none generate_projects_none generate_assignments_none
      generate_salaries_none constraints_hold_purged return_def)

text \<open>
  C10: with \<open>departments = 0\<close> the request succeeds whatever the other counts, the random
  draws and the prior content of the database are: every table is empty afterwards (the
  request is a pure reset), nothing is pending, and the four counts of the payload are 0.
\<close>

theorem generate_zero_departments_is_reset:
  "fst (generate_mock_data env 0 employees_per_dept projects_per_dept salaries_per_employee w) =
     Inr \<lparr>message = ''Mock data generated successfully'',
          stats = \<lparr>st_departments = 0, st_employees = 0, st_projects = 0, st_salaries = 0\<rparr>\<rparr> \<and>
   t_project_employees (committed (snd (generate_mock_data env 0 employees_per_dept
      projects_per_dept salaries_per_employee w))) = [] \<and>
   t_salaries (committed (snd (generate_mock_data env 0 employees_per_dept
      projects_per_dept salaries_per_employee w))) = [] \<and>
   t_projects (committed (snd (generate_mock_data env 0 employees_per_dept
      projects_per_dept salaries_per_employee w))) = [] \<and>
   t_employees (committed (snd (generate_mock_data env 0 employees_per_dept
      projects_per_dept salaries_per_employee w))) = [] \<and>
   t_departments (committed (snd (generate_mock_data env 0 employees_per_dept
      projects_per_dept salaries_per_employee w))) = [] \<and>
   session (snd (generate_mock_data env 0 employees_per_dept
      projects_per_dept salaries_per_employee w)) =
   committed (snd (generate_mock_data env 0 employees_per_dept
      projects_per_dept salaries_per_employee w))"
  by (simp add: generate_mock_data_def generate_body_no_departments purged_def)


end
